theory Spec2Isabelle
  imports Main "HOL-Library.Word" "HOL-Library.Sublist"
begin

section \<open>Go values\<close>

text \<open>
  A Go pointer is either nil or refers to a value; a Go slice is either nil or a
  sequence (the client distinguishes the nil slice from the empty one).
\<close>

type_synonym 'a ptr = "'a option"
type_synonym 'a slice = "'a list option"

text \<open>
  The errors the client can hand to its caller: the package's sentinel
  (\<^verbatim>\<open>errors.New("no such service")\<close>), an error built by \<^verbatim>\<open>fmt.Errorf\<close> (with
  its message), and an error produced outside the package (net/http, io,
  encoding/json), identified by its message.
\<close>

datatype error = ErrNoSuchService | Errorf string | Foreign string

fun Error :: "error \<Rightarrow> string" where
  "Error ErrNoSuchService = ''no such service''"
| "Error (Errorf msg) = msg"
| "Error (Foreign msg) = msg"

section \<open>The strings package, as the client uses it\<close>

text \<open>\<^verbatim>\<open>strings.TrimRight(s, cutset)\<close>: \<open>s\<close> without its trailing characters that are in \<open>cutset\<close>.\<close>

definition TrimRight :: "string \<Rightarrow> string \<Rightarrow> string" where
  "TrimRight s cutset = rev (dropWhile (\<lambda>c. c \<in> set cutset) (rev s))"

text \<open>\<^verbatim>\<open>strings.Join(elems, sep)\<close>.\<close>

fun Join :: "string list \<Rightarrow> string \<Rightarrow> string" where
  "Join [] sep = []"
| "Join [e] sep = e"
| "Join (e # es) sep = e @ sep @ Join es sep"

text \<open>
  \<^verbatim>\<open>strings.Split(s, sep)\<close> for a separator of one byte: the pieces of \<open>s\<close> between the
  separators; a string with no separator (the empty one too) is one piece.
\<close>

fun Split :: "string \<Rightarrow> char \<Rightarrow> string list" where
  "Split [] sep = [[]]"
| "Split (c # cs) sep =
     (if c = sep then [] # Split cs sep
      else (case Split cs sep of [] \<Rightarrow> [[c]] | p # ps \<Rightarrow> (c # p) # ps))"

text \<open>Indexing \<^verbatim>\<open>xs[i]\<close>: out of range is a run-time panic, here \<open>None\<close>.\<close>

definition index :: "'a list \<Rightarrow> int \<Rightarrow> 'a option" where
  "index xs i = (if 0 \<le> i \<and> i < int (length xs) then Some (xs ! nat i) else None)"

text \<open>\<^verbatim>\<open>strings.Contains(s, substr)\<close>.\<close>

definition Contains :: "string \<Rightarrow> string \<Rightarrow> bool" where
  "Contains s substr = sublist substr s"

section \<open>The fmt verbs of the error messages\<close>

text \<open>\<^verbatim>\<open>%v\<close> of an int: its decimal digits, with a minus sign when negative.\<close>

definition digit :: "nat \<Rightarrow> char" where
  "digit n = ''0123456789'' ! n"

function decimal :: "nat \<Rightarrow> string" where
  "decimal n = (if n < 10 then [digit n] else decimal (n div 10) @ [digit (n mod 10)])"
  by pat_completeness auto
termination
  by (relation "measure id") auto

definition Itoa :: "int \<Rightarrow> string" where
  "Itoa i = (if i < 0 then CHR ''-'' # decimal (nat (- i)) else decimal (nat i))"

text \<open>
  \<^verbatim>\<open>%q\<close> of a string is \<^verbatim>\<open>strconv.Quote\<close>: the string between double quotes, with the
  double quote and the backslash backslashed, printable characters kept and the others
  escaped. For a byte below 0x7F the text written is fixed (\<^verbatim>\<open>appendEscapedRune\<close>: the
  named escapes, and \<^verbatim>\<open>\x\<close> with two hex digits for the other control characters). For
  the byte 0x7F it has changed between Go releases, and for a byte from 0x80 on it
  depends on UTF-8 decoding and the Unicode tables; that part is the parameter \<open>esc\<close>,
  which gives the text written for the rune at the head of the string and the rune's
  width in bytes.
\<close>

definition lowerhex :: "nat \<Rightarrow> char" where
  "lowerhex n = ''0123456789abcdef'' ! (n mod 16)"

definition dquote :: char where
  "dquote = CHR 0x22"

definition backslash :: char where
  "backslash = CHR 0x5C"

definition appendEscapedByte :: "char \<Rightarrow> string" where
  "appendEscapedByte c =
     (let r = (of_char c :: nat) in
      if c = dquote \<or> c = backslash then [backslash, c]
      else if 0x20 \<le> r \<and> r \<le> 0x7E then [c]
      else if r = 0x07 then [backslash, CHR ''a'']
      else if r = 0x08 then [backslash, CHR ''b'']
      else if r = 0x0C then [backslash, CHR ''f'']
      else if r = 0x0A then [backslash, CHR ''n'']
      else if r = 0x0D then [backslash, CHR ''r'']
      else if r = 0x09 then [backslash, CHR ''t'']
      else if r = 0x0B then [backslash, CHR ''v'']
      else [backslash, CHR ''x'', lowerhex (r div 16), lowerhex (r mod 16)])"

fun quoteBody :: "(string \<Rightarrow> string \<times> nat) \<Rightarrow> string \<Rightarrow> string" where
  "quoteBody esc [] = []"
| "quoteBody esc (c # cs) =
     (if (of_char c :: nat) < 0x7F then appendEscapedByte c @ quoteBody esc cs
      else (case esc (c # cs) of (out, width) \<Rightarrow> out @ quoteBody esc (drop (width - 1) cs)))"

definition Quote :: "(string \<Rightarrow> string \<times> nat) \<Rightarrow> string \<Rightarrow> string" where
  "Quote esc s = dquote # quoteBody esc s @ [dquote]"

text \<open>
  The bytes \<^verbatim>\<open>%q\<close> writes as they are: printable ASCII other than the double quote
  and the backslash.
\<close>

definition unescaped :: "char \<Rightarrow> bool" where
  "unescaped c \<longleftrightarrow>
     0x20 \<le> (of_char c :: nat) \<and> (of_char c :: nat) \<le> 0x7E \<and> c \<noteq> dquote \<and> c \<noteq> backslash"

section \<open>HTTP requests, responses and what an operation does to the outside\<close>

text \<open>
  A request as the client builds it: method, URL and, for a POST, the content type and
  the bytes of the body reader (nil for GET and DELETE).
\<close>

record request =
  Method :: string
  URL :: string
  ContentType :: string
  Payload :: "string option"

text \<open>
  A response body is a reader: \<^verbatim>\<open>ioutil.ReadAll\<close> on it gives the bytes read and,
  possibly, a read error.
\<close>

record body =
  bytes :: string
  read_error :: "string option"

record response =
  StatusCode :: int
  Header :: "string \<rightharpoonup> string list"
  Body :: body

definition StatusOK :: int where "StatusOK = 200"
definition StatusCreated :: int where "StatusCreated = 201"
definition StatusNoContent :: int where "StatusNoContent = 204"
definition StatusNotFound :: int where "StatusNotFound = 404"

text \<open>
  \<^verbatim>\<open>Header.Get(key)\<close>: the first value stored under the key, the empty string when there
  is none. (The key \<^verbatim>\<open>Location\<close> is already in canonical form.)
\<close>

definition Header_Get :: "(string \<rightharpoonup> string list) \<Rightarrow> string \<Rightarrow> string" where
  "Header_Get h key = (case h key of None \<Rightarrow> [] | Some [] \<Rightarrow> [] | Some (v # vs) \<Rightarrow> v)"

text \<open>
  The input and output an operation performs, in order: handing a request to the HTTP
  client, reading a response body to its end, closing it.
\<close>

datatype event = EvRequest request | EvReadAll | EvClose

text \<open>
  What lies outside the package and decides a call: the HTTP client's answer to a
  request (a transport error or a response), \<^verbatim>\<open>http.NewRequest\<close>'s verdict on a
  method and URL, \<^verbatim>\<open>json.Marshal\<close> on the two entities (an error or the bytes),
  \<^verbatim>\<open>json.Unmarshal\<close> into a \<^verbatim>\<open>*ipvs.Service\<close> and into a
  \<^verbatim>\<open>[]*ipvs.Service\<close> (the bytes and the target's old value give its new value and,
  possibly, an error), and the Unicode part of \<^verbatim>\<open>%q\<close>. The entity types of package
  ipvs are the type parameters \<open>'svc\<close> and \<open>'dst\<close>.
\<close>

record ('svc, 'dst) env =
  round_trip :: "request \<Rightarrow> string + response"
  NewRequest_error :: "string \<Rightarrow> string \<Rightarrow> string option"
  Marshal_Service :: "'svc \<Rightarrow> string + string"
  Marshal_Destination :: "'dst \<Rightarrow> string + string"
  Unmarshal_Service :: "string \<Rightarrow> 'svc ptr \<Rightarrow> 'svc ptr \<times> string option"
  Unmarshal_Services :: "string \<Rightarrow> 'svc ptr slice \<Rightarrow> 'svc ptr slice \<times> string option"
  ServiceId :: "'dst \<Rightarrow> string"
  escape_rune :: "string \<Rightarrow> string \<times> nat"

definition ReadAll :: "body \<Rightarrow> string \<times> string option" where
  "ReadAll b = (bytes b, read_error b)"

definition NewRequest :: "('svc, 'dst) env \<Rightarrow> string \<Rightarrow> string \<Rightarrow> error + request" where
  "NewRequest env m u =
     (case NewRequest_error env m u of
        Some e \<Rightarrow> Inl (Foreign e)
      | None \<Rightarrow> Inr \<lparr>Method = m, URL = u, ContentType = [], Payload = None\<rparr>)"

definition HttpClient_Do :: "('svc, 'dst) env \<Rightarrow> request \<Rightarrow> (error + response) \<times> event list" where
  "HttpClient_Do env req =
     (case round_trip env req of
        Inl e \<Rightarrow> (Inl (Foreign e), [EvRequest req])
      | Inr resp \<Rightarrow> (Inr resp, [EvRequest req]))"

definition HttpClient_Get :: "('svc, 'dst) env \<Rightarrow> string \<Rightarrow> (error + response) \<times> event list" where
  "HttpClient_Get env u =
     HttpClient_Do env \<lparr>Method = ''GET'', URL = u, ContentType = [], Payload = None\<rparr>"

definition HttpClient_Post ::
  "('svc, 'dst) env \<Rightarrow> string \<Rightarrow> string \<Rightarrow> string \<Rightarrow> (error + response) \<times> event list" where
  "HttpClient_Post env u ctype b =
     HttpClient_Do env \<lparr>Method = ''POST'', URL = u, ContentType = ctype, Payload = Some b\<rparr>"

section \<open>The client\<close>

text \<open>\<^verbatim>\<open>time.Duration\<close> is an int64 count of nanoseconds.\<close>

type_synonym Duration = "64 word"

definition Nanosecond :: Duration where "Nanosecond = 1"
definition Microsecond :: Duration where "Microsecond = 1000 * Nanosecond"
definition Millisecond :: Duration where "Millisecond = 1000 * Microsecond"
definition Second :: Duration where "Second = 1000 * Millisecond"
definition Minute :: Duration where "Minute = 60 * Second"

record Dialer =
  Dial_Timeout :: Duration
  Dial_KeepAlive :: Duration

record Transport =
  Dial :: Dialer
  TLSHandshakeTimeout :: Duration
  MaxIdleConnsPerHost :: int
  DisableKeepAlives :: bool

record http_Client =
  Transport :: Transport
  Timeout :: Duration

record Client =
  Addr :: string
  HttpClient :: http_Client

definition NewClient :: "string \<Rightarrow> Client" where
  "NewClient addr =
     (let baseTimeout = 30 * Second;
          fullTimeout = Minute
      in \<lparr>Addr = addr,
          HttpClient = \<lparr>
            Transport = \<lparr>
              Dial = \<lparr>Dial_Timeout = baseTimeout, Dial_KeepAlive = baseTimeout\<rparr>,
              TLSHandshakeTimeout = baseTimeout,
              MaxIdleConnsPerHost = - 1,
              DisableKeepAlives = True\<rparr>,
            Timeout = fullTimeout\<rparr>\<rparr>)"

definition path :: "Client \<Rightarrow> string list \<Rightarrow> string" where
  "path c paths = Join ([TrimRight (Addr c) ''/''] @ paths) ''/''"

definition idFromLocation :: "response \<Rightarrow> string option" where
  "idFromLocation resp =
     (let parts = Split (Header_Get (Header resp) ''Location'') (CHR ''/'')
      in index parts (int (length parts) - 1))"

definition formatError :: "('svc, 'dst) env \<Rightarrow> response \<Rightarrow> error \<times> event list" where
  "formatError env resp =
     (case ReadAll (Body resp) of
        (b, _) \<Rightarrow>
          (Errorf (''Request failed. Status Code: '' @ Itoa (StatusCode resp) @ ''. Body: ''
                     @ Quote (escape_rune env) b),
           [EvReadAll]))"

definition encode :: "('a \<Rightarrow> string + string) \<Rightarrow> 'a \<Rightarrow> error + string" where
  "encode marshal obj =
     (case marshal obj of
        Inl e \<Rightarrow> Inl (Foreign e)
      | Inr b \<Rightarrow> Inr b)"

definition decode ::
  "('svc, 'dst) env \<Rightarrow> (string \<Rightarrow> 'a \<Rightarrow> 'a \<times> string option) \<Rightarrow> body \<Rightarrow> 'a \<Rightarrow>
     ('a \<times> error option) \<times> event list" where
  "decode env unmarshal b obj =
     (case ReadAll b of
        (data, Some e) \<Rightarrow> ((obj, Some (Foreign e)), [EvReadAll])
      | (data, None) \<Rightarrow>
          (case unmarshal data obj of
             (obj', Some e) \<Rightarrow>
               ((obj', Some (Errorf (''unable to unmarshal body '' @ Quote (escape_rune env) data
                                       @ '': '' @ e))),
                [EvReadAll])
           | (obj', None) \<Rightarrow> ((obj', None), [EvReadAll])))"

text \<open>
  Each operation gives what the Go function returns and the events it performed. The
  deferred \<^verbatim>\<open>resp.Body.Close()\<close> is the last event of every call that got a response.
\<close>

definition GetServices ::
  "('svc, 'dst) env \<Rightarrow> Client \<Rightarrow> ('svc ptr slice \<times> error option) \<times> event list" where
  "GetServices env c =
     (case HttpClient_Get env (path c [''services'']) of
        (Inl err, evs) \<Rightarrow> ((None, Some err), evs)
      | (Inr resp, evs) \<Rightarrow>
          (if StatusCode resp = StatusOK then
             (case decode env (Unmarshal_Services env) (Body resp) None of
                ((services, err), evs') \<Rightarrow> ((services, err), evs @ evs' @ [EvClose]))
           else if StatusCode resp = StatusNoContent then
             ((Some [], None), evs @ [EvClose])
           else
             (case formatError env resp of
                (err, evs') \<Rightarrow> ((None, Some err), evs @ evs' @ [EvClose]))))"

definition GetService ::
  "('svc, 'dst) env \<Rightarrow> Client \<Rightarrow> string \<Rightarrow> ('svc ptr \<times> error option) \<times> event list" where
  "GetService env c ident =
     (case HttpClient_Get env (path c [''services'', ident]) of
        (Inl err, evs) \<Rightarrow> ((None, Some err), evs)
      | (Inr resp, evs) \<Rightarrow>
          (if StatusCode resp = StatusOK then
             (case decode env (Unmarshal_Service env) (Body resp) None of
                ((svc, err), evs') \<Rightarrow> ((svc, err), evs @ evs' @ [EvClose]))
           else if StatusCode resp = StatusNotFound then
             ((None, Some ErrNoSuchService), evs @ [EvClose])
           else
             (case formatError env resp of
                (err, evs') \<Rightarrow> ((None, Some err), evs @ evs' @ [EvClose]))))"

text \<open>
  The two creating operations return an identifier and an error, or panic (\<open>None\<close>)
  if the index in \<open>idFromLocation\<close> is out of range.
\<close>

definition CreateService ::
  "('svc, 'dst) env \<Rightarrow> Client \<Rightarrow> 'svc \<Rightarrow> (string \<times> error option) option \<times> event list" where
  "CreateService env c svc =
     (case encode (Marshal_Service env) svc of
        Inl err \<Rightarrow> (Some ([], Some err), [])
      | Inr json \<Rightarrow>
          (case HttpClient_Post env (path c [''services'']) ''application/json'' json of
             (Inl err, evs) \<Rightarrow> (Some ([], Some err), evs)
           | (Inr resp, evs) \<Rightarrow>
               (if StatusCode resp \<noteq> StatusCreated then
                  (case formatError env resp of
                     (err, evs') \<Rightarrow> (Some ([], Some err), evs @ evs' @ [EvClose]))
                else
                  (case idFromLocation resp of
                     None \<Rightarrow> (None, evs @ [EvClose])
                   | Some ident \<Rightarrow> (Some (ident, None), evs @ [EvClose])))))"

definition DeleteService ::
  "('svc, 'dst) env \<Rightarrow> Client \<Rightarrow> string \<Rightarrow> error option \<times> event list" where
  "DeleteService env c ident =
     (case NewRequest env ''DELETE'' (path c [''services'', ident]) of
        Inl err \<Rightarrow> (Some err, [])
      | Inr req \<Rightarrow>
          (case HttpClient_Do env req of
             (Inl err, evs) \<Rightarrow> (Some err, evs)
           | (Inr resp, evs) \<Rightarrow>
               (if StatusCode resp \<noteq> StatusOK then
                  (case formatError env resp of
                     (err, evs') \<Rightarrow> (Some err, evs @ evs' @ [EvClose]))
                else (None, evs @ [EvClose]))))"

definition AddDestination ::
  "('svc, 'dst) env \<Rightarrow> Client \<Rightarrow> 'dst \<Rightarrow> (string \<times> error option) option \<times> event list" where
  "AddDestination env c dst =
     (case encode (Marshal_Destination env) dst of
        Inl err \<Rightarrow> (Some ([], Some err), [])
      | Inr json \<Rightarrow>
          (case HttpClient_Post env (path c [''services'', ServiceId env dst, ''destinations''])
                  ''application/json'' json of
             (Inl err, evs) \<Rightarrow> (Some ([], Some err), evs)
           | (Inr resp, evs) \<Rightarrow>
               (if StatusCode resp \<noteq> StatusCreated then
                  (case formatError env resp of
                     (err, evs') \<Rightarrow> (Some ([], Some err), evs @ evs' @ [EvClose]))
                else
                  (case idFromLocation resp of
                     None \<Rightarrow> (None, evs @ [EvClose])
                   | Some ident \<Rightarrow> (Some (ident, None), evs @ [EvClose])))))"

definition DeleteDestination ::
  "('svc, 'dst) env \<Rightarrow> Client \<Rightarrow> string \<Rightarrow> string \<Rightarrow> error option \<times> event list" where
  "DeleteDestination env c serviceId destinationId =
     (case NewRequest env ''DELETE''
             (path c [''services'', serviceId, ''destinations'', destinationId]) of
        Inl err \<Rightarrow> (Some err, [])
      | Inr req \<Rightarrow>
          (case HttpClient_Do env req of
             (Inl err, evs) \<Rightarrow> (Some err, evs)
           | (Inr resp, evs) \<Rightarrow>
               (if StatusCode resp \<noteq> StatusOK then
                  (case formatError env resp of
                     (err, evs') \<Rightarrow> (Some err, evs @ evs' @ [EvClose]))
                else (None, evs @ [EvClose]))))"

section \<open>A stand-in for the outside\<close>

text \<open>
  For concrete runs: a server that answers every request with the given response, over
  a Service that is a number and a Destination that is the id of its service. Marshal
  fails on the Service 0 and on the Destination with an empty service id; Unmarshal
  knows \<^verbatim>\<open>null\<close> and \<^verbatim>\<open>1\<close>, and \<^verbatim>\<open>[]\<close> and \<^verbatim>\<open>[1]\<close>; every byte from 0x7F on is
  escaped on its own, as \<^verbatim>\<open>\x\<close> and two hex digits.
\<close>

definition stub_env :: "response \<Rightarrow> (nat, string) env" where
  "stub_env resp =
     \<lparr>round_trip = (\<lambda>req. Inr resp),
      NewRequest_error = (\<lambda>m u. None),
      Marshal_Service = (\<lambda>svc. if svc = 0 then Inl ''json: unsupported value'' else Inr (decimal svc)),
      Marshal_Destination = (\<lambda>dst. if dst = [] then Inl ''json: unsupported value'' else Inr dst),
      Unmarshal_Service = (\<lambda>data old.
         if data = ''null'' then (None, None)
         else if data = ''1'' then (Some 1, None)
         else (old, Some ''invalid character'')),
      Unmarshal_Services = (\<lambda>data old.
         if data = ''[]'' then (Some [], None)
         else if data = ''[1]'' then (Some [Some 1], None)
         else (old, Some ''invalid character'')),
      ServiceId = (\<lambda>dst. dst),
      escape_rune = (\<lambda>s. case s of
         [] \<Rightarrow> ([], 1)
       | c # cs \<Rightarrow> ([backslash, CHR ''x'', lowerhex (of_char c div 16), lowerhex (of_char c mod 16)], 1))\<rparr>"

definition stub_response :: "int \<Rightarrow> string \<Rightarrow> string \<Rightarrow> response" where
  "stub_response status location content =
     \<lparr>StatusCode = status,
      Header = [''Location'' \<mapsto> [location]],
      Body = \<lparr>bytes = content, read_error = None\<rparr>\<rparr>"

section \<open>Facts about the string functions\<close>

lemma Split_not_Nil: "Split s sep \<noteq> []"
  by (induction s) (auto split: list.splits)

lemma Split_no_sep: "sep \<notin> set s \<Longrightarrow> Split s sep = [s]"
  by (induction s) auto

lemma length_Split: "length (Split s sep) = Suc (length (filter (\<lambda>c. c = sep) s))"
  by (induction s) (auto split: list.splits)

lemma last_Split_append: "last (Split (p @ sep # t) sep) = last (Split t sep)"
proof (induction p)
  case Nil
  show ?case by (simp add: Split_not_Nil)
next
  case (Cons a p)
  show ?case
  proof (cases "a = sep")
    case True
    with Cons show ?thesis by (simp add: Split_not_Nil)
  next
    case False
    have "length (Split (p @ sep # t) sep) \<ge> 2"
      by (simp add: length_Split)
    then obtain q r rs where "Split (p @ sep # t) sep = q # r # rs"
      by (cases "Split (p @ sep # t) sep" rule: list.exhaust; cases "tl (Split (p @ sep # t) sep)") auto
    with Cons False show ?thesis by simp
  qed
qed

lemma Join_concat: "Join (b # ps) sep = b @ concat (map (\<lambda>p. sep @ p) ps)"
  by (induction ps arbitrary: b) auto

lemma all_same_replicate: "\<forall>x\<in>set xs. x = c \<Longrightarrow> xs = replicate (length xs) c"
  by (induction xs) auto

lemma TrimRight_decomp: "\<exists>n. s = TrimRight s [c] @ replicate n c"
proof -
  let ?P = "\<lambda>x. x \<in> set [c]"
  have "rev s = takeWhile ?P (rev s) @ dropWhile ?P (rev s)" by simp
  then have "s = rev (dropWhile ?P (rev s)) @ rev (takeWhile ?P (rev s))"
    by (metis rev_append rev_rev_ident)
  moreover have "rev (takeWhile ?P (rev s)) = replicate (length (takeWhile ?P (rev s))) c"
    using all_same_replicate[of "rev (takeWhile ?P (rev s))" c] by (auto dest: set_takeWhileD)
  ultimately show ?thesis unfolding TrimRight_def by metis
qed

lemma TrimRight_no_trailing: "\<not> (\<exists>ys. TrimRight s [c] = ys @ [c])"
proof
  assume "\<exists>ys. TrimRight s [c] = ys @ [c]"
  then obtain ys where "rev (dropWhile (\<lambda>x. x \<in> set [c]) (rev s)) = ys @ [c]"
    unfolding TrimRight_def by blast
  then have "dropWhile (\<lambda>x. x \<in> set [c]) (rev s) = c # rev ys"
    by (metis rev_rev_ident rev_append rev.simps append_Nil)
  then show False by (simp add: dropWhile_eq_Cons_conv)
qed

lemma index_last: "xs \<noteq> [] \<Longrightarrow> index xs (int (length xs) - 1) = Some (last xs)"
  by (simp add: index_def last_conv_nth nat_diff_distrib' flip: of_nat_diff)

lemma idFromLocation_eq_last:
  "idFromLocation resp = Some (last (Split (Header_Get (Header resp) ''Location'') (CHR ''/'')))"
  by (simp add: idFromLocation_def Let_def index_last Split_not_Nil)

lemma appendEscapedByte_unescaped: "unescaped c \<Longrightarrow> appendEscapedByte c = [c]"
  by (simp add: appendEscapedByte_def unescaped_def Let_def)

lemma quoteBody_unescaped: "\<forall>c\<in>set s. unescaped c \<Longrightarrow> quoteBody esc s = s"
proof (induction s)
  case Nil
  show ?case by simp
next
  case (Cons c s)
  then have u: "unescaped c" by simp
  then have "(of_char c :: nat) < 0x7F" by (simp add: unescaped_def)
  with Cons u show ?case by (simp add: appendEscapedByte_unescaped)
qed

lemma Contains_middle: "Contains (p @ s @ q) s"
  by (simp add: Contains_def)

lemma Contains_suffix: "Contains (p @ s) s"
  using Contains_middle[of p s "[]"] by simp

section \<open>Facts about the operations\<close>

lemma HttpClient_Do_response:
  "round_trip env req = Inr resp \<Longrightarrow> HttpClient_Do env req = (Inr resp, [EvRequest req])"
  by (simp add: HttpClient_Do_def)

lemma HttpClient_Do_cases:
  "(\<exists>e. HttpClient_Do env req = (Inl (Foreign e), [EvRequest req]))
   \<or> (\<exists>resp. round_trip env req = Inr resp \<and> HttpClient_Do env req = (Inr resp, [EvRequest req]))"
  by (cases "round_trip env req") (simp_all add: HttpClient_Do_def)

lemma HttpClient_Get_response:
  "round_trip env \<lparr>Method = ''GET'', URL = u, ContentType = [], Payload = None\<rparr> = Inr resp \<Longrightarrow>
   HttpClient_Get env u
     = (Inr resp, [EvRequest \<lparr>Method = ''GET'', URL = u, ContentType = [], Payload = None\<rparr>])"
  by (simp add: HttpClient_Get_def HttpClient_Do_def)

lemma HttpClient_Post_response:
  "round_trip env \<lparr>Method = ''POST'', URL = u, ContentType = ct, Payload = Some b\<rparr> = Inr resp \<Longrightarrow>
   HttpClient_Post env u ct b
     = (Inr resp, [EvRequest \<lparr>Method = ''POST'', URL = u, ContentType = ct, Payload = Some b\<rparr>])"
  by (simp add: HttpClient_Post_def HttpClient_Do_def)

lemma NewRequest_ok:
  "NewRequest_error env m u = None \<Longrightarrow>
   NewRequest env m u = Inr \<lparr>Method = m, URL = u, ContentType = [], Payload = None\<rparr>"
  by (simp add: NewRequest_def)

lemma NewRequest_cases:
  "(\<exists>e. NewRequest env m u = Inl (Foreign e)) \<or> (\<exists>req. NewRequest env m u = Inr req)"
  by (cases "NewRequest_error env m u") (simp_all add: NewRequest_def)

lemma encode_cases:
  "(\<exists>e. encode marshal obj = Inl (Foreign e)) \<or> (\<exists>b. encode marshal obj = Inr b)"
  by (cases "marshal obj") (simp_all add: encode_def)

lemma decode_ok:
  "read_error b = None \<Longrightarrow> um (bytes b) obj = (obj', None) \<Longrightarrow>
   fst (decode env um b obj) = (obj', None)"
  by (simp add: decode_def ReadAll_def)

lemma decode_not_sentinel: "snd (fst (decode env um b obj)) \<noteq> Some ErrNoSuchService"
  by (simp add: decode_def ReadAll_def split: option.splits prod.splits)

lemma formatError_Error:
  "Error (fst (formatError env resp))
     = ''Request failed. Status Code: '' @ Itoa (StatusCode resp) @ ''. Body: ''
       @ Quote (escape_rune env) (bytes (Body resp))"
  by (simp add: formatError_def ReadAll_def)

lemma formatError_Errorf: "\<exists>msg. fst (formatError env resp) = Errorf msg"
  by (simp add: formatError_def ReadAll_def)

lemma formatError_not_sentinel: "fst (formatError env resp) \<noteq> ErrNoSuchService"
  using formatError_Errorf[of env resp] by auto

lemma GetServices_failed_status:
  assumes "round_trip env \<lparr>Method = ''GET'', URL = path c [''services''],
                            ContentType = [], Payload = None\<rparr> = Inr resp"
    and "StatusCode resp \<noteq> 200" and "StatusCode resp \<noteq> 204"
  shows "fst (GetServices env c) = (None, Some (fst (formatError env resp)))"
  using assms(2,3)
  by (simp add: GetServices_def HttpClient_Get_response[OF assms(1)] StatusOK_def
      StatusNoContent_def split: prod.splits)

lemma CreateService_failed_status:
  assumes "Marshal_Service env svc = Inr json"
    and "round_trip env \<lparr>Method = ''POST'', URL = path c [''services''],
                       ContentType = ''application/json'', Payload = Some json\<rparr> = Inr resp"
    and "StatusCode resp \<noteq> 201"
  shows "fst (CreateService env c svc) = Some ([], Some (fst (formatError env resp)))"
  using assms(1,3)
  by (simp add: CreateService_def encode_def HttpClient_Post_response[OF assms(2)]
      StatusCreated_def split: prod.splits)

lemma AddDestination_failed_status:
  assumes "Marshal_Destination env dst = Inr json"
    and "round_trip env \<lparr>Method = ''POST'',
                       URL = path c [''services'', ServiceId env dst, ''destinations''],
                       ContentType = ''application/json'', Payload = Some json\<rparr> = Inr resp"
    and "StatusCode resp \<noteq> 201"
  shows "fst (AddDestination env c dst) = Some ([], Some (fst (formatError env resp)))"
  using assms(1,3)
  by (simp add: AddDestination_def encode_def HttpClient_Post_response[OF assms(2)]
      StatusCreated_def split: prod.splits)

lemma DeleteService_failed_status:
  assumes "NewRequest_error env ''DELETE'' (path c [''services'', ident]) = None"
    and "round_trip env \<lparr>Method = ''DELETE'', URL = path c [''services'', ident],
                       ContentType = [], Payload = None\<rparr> = Inr resp"
    and "StatusCode resp \<noteq> 200"
  shows "fst (DeleteService env c ident) = Some (fst (formatError env resp))"
  using assms(3)
  by (simp add: DeleteService_def NewRequest_ok[OF assms(1)] HttpClient_Do_response[OF assms(2)]
      StatusOK_def split: prod.splits)

lemma DeleteDestination_failed_status:
  assumes "NewRequest_error env ''DELETE'' (path c [''services'', sid, ''destinations'', did]) = None"
    and "round_trip env \<lparr>Method = ''DELETE'',
                       URL = path c [''services'', sid, ''destinations'', did],
                       ContentType = [], Payload = None\<rparr> = Inr resp"
    and "StatusCode resp \<noteq> 200"
  shows "fst (DeleteDestination env c sid did) = Some (fst (formatError env resp))"
  using assms(3)
  by (simp add: DeleteDestination_def NewRequest_ok[OF assms(1)] HttpClient_Do_response[OF assms(2)]
      StatusOK_def split: prod.splits)

lemma GetServices_not_sentinel: "snd (fst (GetServices env c)) \<noteq> Some ErrNoSuchService"
proof -
  let ?req = "\<lparr>Method = ''GET'', URL = path c [''services''], ContentType = [], Payload = None\<rparr>"
  from HttpClient_Do_cases[of env ?req] show ?thesis
  proof (elim disjE exE conjE)
    fix e assume "HttpClient_Do env ?req = (Inl (Foreign e), [EvRequest ?req])"
    then show ?thesis by (simp add: GetServices_def HttpClient_Get_def)
  next
    fix resp assume "HttpClient_Do env ?req = (Inr resp, [EvRequest ?req])"
    then show ?thesis
      using decode_not_sentinel[of env "Unmarshal_Services env" "Body resp" None]
        formatError_not_sentinel[of env resp]
      by (auto simp: GetServices_def HttpClient_Get_def split: prod.splits)
  qed
qed

lemma CreateService_not_sentinel: "fst (CreateService env c svc) \<noteq> Some (ident, Some ErrNoSuchService)"
proof -
  from encode_cases[of "Marshal_Service env" svc] show ?thesis
  proof (elim disjE exE)
    fix e assume "encode (Marshal_Service env) svc = Inl (Foreign e)"
    then show ?thesis by (simp add: CreateService_def)
  next
    fix b assume enc: "encode (Marshal_Service env) svc = Inr b"
    let ?req = "\<lparr>Method = ''POST'', URL = path c [''services''],
                  ContentType = ''application/json'', Payload = Some b\<rparr>"
    from HttpClient_Do_cases[of env ?req] show ?thesis
    proof (elim disjE exE conjE)
      fix e assume "HttpClient_Do env ?req = (Inl (Foreign e), [EvRequest ?req])"
      then show ?thesis by (simp add: CreateService_def enc HttpClient_Post_def)
    next
      fix resp assume "HttpClient_Do env ?req = (Inr resp, [EvRequest ?req])"
      then show ?thesis
        using formatError_not_sentinel[of env resp]
        by (auto simp: CreateService_def enc HttpClient_Post_def idFromLocation_eq_last
            split: prod.splits)
    qed
  qed
qed

lemma AddDestination_not_sentinel: "fst (AddDestination env c dst) \<noteq> Some (ident, Some ErrNoSuchService)"
proof -
  from encode_cases[of "Marshal_Destination env" dst] show ?thesis
  proof (elim disjE exE)
    fix e assume "encode (Marshal_Destination env) dst = Inl (Foreign e)"
    then show ?thesis by (simp add: AddDestination_def)
  next
    fix b assume enc: "encode (Marshal_Destination env) dst = Inr b"
    let ?req = "\<lparr>Method = ''POST'', URL = path c [''services'', ServiceId env dst, ''destinations''],
                  ContentType = ''application/json'', Payload = Some b\<rparr>"
    from HttpClient_Do_cases[of env ?req] show ?thesis
    proof (elim disjE exE conjE)
      fix e assume "HttpClient_Do env ?req = (Inl (Foreign e), [EvRequest ?req])"
      then show ?thesis by (simp add: AddDestination_def enc HttpClient_Post_def)
    next
      fix resp assume "HttpClient_Do env ?req = (Inr resp, [EvRequest ?req])"
      then show ?thesis
        using formatError_not_sentinel[of env resp]
        by (auto simp: AddDestination_def enc HttpClient_Post_def idFromLocation_eq_last
            split: prod.splits)
    qed
  qed
qed

lemma delete_not_sentinel:
  "(case NewRequest env m u of
      Inl err \<Rightarrow> (Some err, [])
    | Inr req \<Rightarrow>
        (case HttpClient_Do env req of
           (Inl err, evs) \<Rightarrow> (Some err, evs)
         | (Inr resp, evs) \<Rightarrow>
             (if StatusCode resp \<noteq> StatusOK then
                (case formatError env resp of
                   (err, evs') \<Rightarrow> (Some err, evs @ evs' @ [EvClose]))
              else (None, evs @ [EvClose])))) = (r, evs'') \<Longrightarrow> r \<noteq> Some ErrNoSuchService"
proof -
  assume a: "(case NewRequest env m u of
      Inl err \<Rightarrow> (Some err, [])
    | Inr req \<Rightarrow>
        (case HttpClient_Do env req of
           (Inl err, evs) \<Rightarrow> (Some err, evs)
         | (Inr resp, evs) \<Rightarrow>
             (if StatusCode resp \<noteq> StatusOK then
                (case formatError env resp of
                   (err, evs') \<Rightarrow> (Some err, evs @ evs' @ [EvClose]))
              else (None, evs @ [EvClose])))) = (r, evs'')"
  from NewRequest_cases[of env m u] show ?thesis
  proof (elim disjE exE)
    fix e assume "NewRequest env m u = Inl (Foreign e)"
    with a show ?thesis by auto
  next
    fix req assume nr: "NewRequest env m u = Inr req"
    from HttpClient_Do_cases[of env req] show ?thesis
    proof (elim disjE exE conjE)
      fix e assume "HttpClient_Do env req = (Inl (Foreign e), [EvRequest req])"
      with a nr show ?thesis by auto
    next
      fix resp assume "HttpClient_Do env req = (Inr resp, [EvRequest req])"
      with a nr formatError_not_sentinel[of env resp] show ?thesis
        by (auto split: prod.splits if_splits)
    qed
  qed
qed

lemma DeleteService_not_sentinel: "fst (DeleteService env c ident) \<noteq> Some ErrNoSuchService"
  using delete_not_sentinel[of env "''DELETE''" "path c [''services'', ident]"
      "fst (DeleteService env c ident)" "snd (DeleteService env c ident)"]
  by (simp add: DeleteService_def)

lemma DeleteDestination_not_sentinel:
  "fst (DeleteDestination env c sid did) \<noteq> Some ErrNoSuchService"
  using delete_not_sentinel[of env "''DELETE''" "path c [''services'', sid, ''destinations'', did]"
      "fst (DeleteDestination env c sid did)" "snd (DeleteDestination env c sid did)"]
  by (simp add: DeleteDestination_def)

lemma GetService_sentinel_only_404:
  assumes "snd (fst (GetService env c ident)) = Some ErrNoSuchService"
  shows "\<exists>resp. round_trip env \<lparr>Method = ''GET'', URL = path c [''services'', ident],
                                   ContentType = [], Payload = None\<rparr> = Inr resp
               \<and> StatusCode resp = 404"
proof -
  let ?req = "\<lparr>Method = ''GET'', URL = path c [''services'', ident], ContentType = [], Payload = None\<rparr>"
  from HttpClient_Do_cases[of env ?req] show ?thesis
  proof (elim disjE exE conjE)
    fix e assume "HttpClient_Do env ?req = (Inl (Foreign e), [EvRequest ?req])"
    with assms show ?thesis by (simp add: GetService_def HttpClient_Get_def)
  next
    fix resp assume r: "round_trip env ?req = Inr resp"
      and d: "HttpClient_Do env ?req = (Inr resp, [EvRequest ?req])"
    have "StatusCode resp = 404"
      using assms d decode_not_sentinel[of env "Unmarshal_Service env" "Body resp" None]
        formatError_not_sentinel[of env resp]
      by (simp add: GetService_def HttpClient_Get_def StatusNotFound_def split: prod.splits if_splits)
    with r show ?thesis by blast
  qed
qed

section \<open>Facts about the stand-in\<close>

lemma stub_round_trip: "round_trip (stub_env r) req = Inr r"
  by (simp add: stub_env_def)

lemma stub_response_sel:
  "StatusCode (stub_response status loc content) = status"
  "Header (stub_response status loc content) = [''Location'' \<mapsto> [loc]]"
  "Body (stub_response status loc content) = \<lparr>bytes = content, read_error = None\<rparr>"
  by (simp_all add: stub_response_def)

lemma stub_env_sel:
  "NewRequest_error (stub_env r) m u = None"
  "Marshal_Service (stub_env r) svc
     = (if svc = 0 then Inl ''json: unsupported value'' else Inr (decimal svc))"
  "Marshal_Destination (stub_env r) dst
     = (if dst = [] then Inl ''json: unsupported value'' else Inr dst)"
  "Unmarshal_Service (stub_env r) ''null'' old = (None, None)"
  "Unmarshal_Service (stub_env r) ''1'' old = (Some 1, None)"
  "Unmarshal_Services (stub_env r) ''[1]'' olds = (Some [Some 1], None)"
  "ServiceId (stub_env r) dst = dst"
  by (simp_all add: stub_env_def)

lemma path_host:
  "path (NewClient ''http://host/'') ps = ''http://host'' @ concat (map (\<lambda>p. ''/'' @ p) ps)"
  by (simp add: path_def NewClient_def Let_def TrimRight_def Join_concat)

lemma formatError_stub_boom:
  "fst (formatError (stub_env r) (stub_response 500 loc ''boom''))
     = Errorf (''Request failed. Status Code: 500. Body: '' @ [dquote] @ ''boom'' @ [dquote])"
  by (simp add: formatError_def ReadAll_def stub_response_def Itoa_def Quote_def
      appendEscapedByte_def dquote_def backslash_def Let_def digit_def)

lemma formatError_stub_gone:
  "fst (formatError (stub_env r) (stub_response 404 loc ''gone''))
     = Errorf (''Request failed. Status Code: 404. Body: '' @ [dquote] @ ''gone'' @ [dquote])"
  by (simp add: formatError_def ReadAll_def stub_response_def Itoa_def Quote_def
      appendEscapedByte_def dquote_def backslash_def Let_def digit_def)

section \<open>Status dispatch of the reading operations\<close>

text \<open>
  Claim C1. For every service id, when the request gets a response: on status 200
  \<open>GetService\<close> returns what \<open>decode\<close> makes of the body (the decoded Service and no
  error, when the body is read and unmarshalled without error); on status 404 it
  returns the sentinel \<open>ErrNoSuchService\<close> and no Service; on every other status it
  returns the error of \<open>formatError\<close> and no Service.
\<close>

theorem GetService_by_status:
  assumes "round_trip env \<lparr>Method = ''GET'', URL = path c [''services'', ident],
                            ContentType = [], Payload = None\<rparr> = Inr resp"
  shows "(StatusCode resp = 200 \<longrightarrow>
            fst (GetService env c ident) = fst (decode env (Unmarshal_Service env) (Body resp) None))
       \<and> (StatusCode resp = 200 \<and> read_error (Body resp) = None
            \<and> Unmarshal_Service env (bytes (Body resp)) None = (svc, None) \<longrightarrow>
            fst (GetService env c ident) = (svc, None))
       \<and> (StatusCode resp = 404 \<longrightarrow>
            fst (GetService env c ident) = (None, Some ErrNoSuchService))
       \<and> (StatusCode resp \<noteq> 200 \<and> StatusCode resp \<noteq> 404 \<longrightarrow>
            fst (GetService env c ident) = (None, Some (fst (formatError env resp))))"
proof -
  note get = HttpClient_Get_response[OF assms]
  have ok: "StatusCode resp = 200 \<longrightarrow>
            fst (GetService env c ident) = fst (decode env (Unmarshal_Service env) (Body resp) None)"
    by (simp add: GetService_def get StatusOK_def split: prod.splits)
  have ok': "StatusCode resp = 200 \<and> read_error (Body resp) = None
            \<and> Unmarshal_Service env (bytes (Body resp)) None = (svc, None) \<longrightarrow>
            fst (GetService env c ident) = (svc, None)"
    using ok by (simp add: decode_ok)
  have nf: "StatusCode resp = 404 \<longrightarrow>
            fst (GetService env c ident) = (None, Some ErrNoSuchService)"
    by (simp add: GetService_def get StatusOK_def StatusNotFound_def)
  have other: "StatusCode resp \<noteq> 200 \<and> StatusCode resp \<noteq> 404 \<longrightarrow>
            fst (GetService env c ident) = (None, Some (fst (formatError env resp)))"
    by (simp add: GetService_def get StatusOK_def StatusNotFound_def split: prod.splits)
  from ok ok' nf other show ?thesis by blast
qed

text \<open>C1 at three concrete responses: 200 with body \<^verbatim>\<open>1\<close>, 404, and 500 with body \<^verbatim>\<open>boom\<close>.\<close>

theorem GetService_by_status_witness:
  "fst (GetService (stub_env (stub_response 200 [] ''1'')) (NewClient ''http://host/'') ''7'')
     = (Some 1, None)
   \<and> fst (GetService (stub_env (stub_response 404 [] ''not found'')) (NewClient ''http://host/'') ''7'')
     = (None, Some ErrNoSuchService)
   \<and> fst (GetService (stub_env (stub_response 500 [] ''boom'')) (NewClient ''http://host/'') ''7'')
     = (None, Some (Errorf (''Request failed. Status Code: 500. Body: '' @ [dquote] @ ''boom'' @ [dquote])))"
proof -
  let ?c = "NewClient ''http://host/''"
  let ?ok = "stub_response 200 [] ''1''"
  let ?nf = "stub_response 404 [] ''not found''"
  let ?err = "stub_response 500 [] ''boom''"
  have 1: "fst (GetService (stub_env ?ok) ?c ''7'') = (Some 1, None)"
  proof -
    have "StatusCode ?ok = 200 \<and> read_error (Body ?ok) = None
          \<and> Unmarshal_Service (stub_env ?ok) (bytes (Body ?ok)) None = (Some 1, None)"
      by (simp add: stub_response_sel stub_env_sel)
    with GetService_by_status[of "stub_env ?ok" ?c "''7''" ?ok "Some 1", OF stub_round_trip]
    show ?thesis by blast
  qed
  have 2: "fst (GetService (stub_env ?nf) ?c ''7'') = (None, Some ErrNoSuchService)"
    using GetService_by_status[of "stub_env ?nf" ?c "''7''" ?nf None, OF stub_round_trip]
    by (simp add: stub_response_sel)
  have 3: "fst (GetService (stub_env ?err) ?c ''7'')
     = (None, Some (Errorf (''Request failed. Status Code: 500. Body: '' @ [dquote] @ ''boom'' @ [dquote])))"
    using GetService_by_status[of "stub_env ?err" ?c "''7''" ?err None, OF stub_round_trip]
    by (simp add: formatError_stub_boom stub_response_sel)
  from 1 2 3 show ?thesis by blast
qed

text \<open>
  Claim C2. When the request gets a response: on status 200 \<open>GetServices\<close> returns what
  \<open>decode\<close> makes of the body as a sequence of Services; on status 204 it returns the
  empty (not nil) sequence and no error, having sent the request and closed the body
  and nothing else (the body is not read, nothing is unmarshalled, whatever the body
  holds); on every other status it returns the error of \<open>formatError\<close> and the nil
  sequence.
\<close>

theorem GetServices_by_status:
  assumes "round_trip env \<lparr>Method = ''GET'', URL = path c [''services''],
                            ContentType = [], Payload = None\<rparr> = Inr resp"
  shows "(StatusCode resp = 200 \<longrightarrow>
            fst (GetServices env c) = fst (decode env (Unmarshal_Services env) (Body resp) None))
       \<and> (StatusCode resp = 200 \<and> read_error (Body resp) = None
            \<and> Unmarshal_Services env (bytes (Body resp)) None = (svcs, None) \<longrightarrow>
            fst (GetServices env c) = (svcs, None))
       \<and> (StatusCode resp = 204 \<longrightarrow>
            GetServices env c
              = ((Some [], None),
                 [EvRequest \<lparr>Method = ''GET'', URL = path c [''services''],
                              ContentType = [], Payload = None\<rparr>,
                  EvClose]))
       \<and> (StatusCode resp \<noteq> 200 \<and> StatusCode resp \<noteq> 204 \<longrightarrow>
            fst (GetServices env c) = (None, Some (fst (formatError env resp))))"
proof -
  note get = HttpClient_Get_response[OF assms]
  have ok: "StatusCode resp = 200 \<longrightarrow>
            fst (GetServices env c) = fst (decode env (Unmarshal_Services env) (Body resp) None)"
    by (simp add: GetServices_def get StatusOK_def split: prod.splits)
  have ok': "StatusCode resp = 200 \<and> read_error (Body resp) = None
            \<and> Unmarshal_Services env (bytes (Body resp)) None = (svcs, None) \<longrightarrow>
            fst (GetServices env c) = (svcs, None)"
    using ok by (simp add: decode_ok)
  have nc: "StatusCode resp = 204 \<longrightarrow>
            GetServices env c
              = ((Some [], None),
                 [EvRequest \<lparr>Method = ''GET'', URL = path c [''services''],
                              ContentType = [], Payload = None\<rparr>,
                  EvClose])"
    by (simp add: GetServices_def get StatusOK_def StatusNoContent_def)
  have other: "StatusCode resp \<noteq> 200 \<and> StatusCode resp \<noteq> 204 \<longrightarrow>
            fst (GetServices env c) = (None, Some (fst (formatError env resp)))"
    by (simp add: GetServices_def get StatusOK_def StatusNoContent_def split: prod.splits)
  from ok ok' nc other show ?thesis by blast
qed

text \<open>C2 at three concrete responses: 200 with body \<^verbatim>\<open>[1]\<close>, 204 with no body, and 500.\<close>

theorem GetServices_by_status_witness:
  "fst (GetServices (stub_env (stub_response 200 [] ''[1]'')) (NewClient ''http://host/''))
     = (Some [Some 1], None)
   \<and> GetServices (stub_env (stub_response 204 [] [])) (NewClient ''http://host/'')
     = ((Some [], None),
        [EvRequest \<lparr>Method = ''GET'', URL = ''http://host/services'', ContentType = [], Payload = None\<rparr>,
         EvClose])
   \<and> fst (GetServices (stub_env (stub_response 500 [] ''boom'')) (NewClient ''http://host/''))
     = (None, Some (Errorf (''Request failed. Status Code: 500. Body: '' @ [dquote] @ ''boom'' @ [dquote])))"
proof -
  let ?c = "NewClient ''http://host/''"
  let ?ok = "stub_response 200 [] ''[1]''"
  let ?nc = "stub_response 204 [] []"
  let ?err = "stub_response 500 [] ''boom''"
  have 1: "fst (GetServices (stub_env ?ok) ?c) = (Some [Some 1], None)"
  proof -
    have "StatusCode ?ok = 200 \<and> read_error (Body ?ok) = None
          \<and> Unmarshal_Services (stub_env ?ok) (bytes (Body ?ok)) None = (Some [Some 1], None)"
      by (simp add: stub_response_sel stub_env_sel)
    with GetServices_by_status[of "stub_env ?ok" ?c ?ok "Some [Some 1]", OF stub_round_trip]
    show ?thesis by blast
  qed
  have 2: "GetServices (stub_env ?nc) ?c
     = ((Some [], None),
        [EvRequest \<lparr>Method = ''GET'', URL = ''http://host/services'', ContentType = [], Payload = None\<rparr>,
         EvClose])"
    using GetServices_by_status[of "stub_env ?nc" ?c ?nc None, OF stub_round_trip]
    by (simp add: stub_response_sel path_host)
  have 3: "fst (GetServices (stub_env ?err) ?c)
     = (None, Some (Errorf (''Request failed. Status Code: 500. Body: '' @ [dquote] @ ''boom'' @ [dquote])))"
    using GetServices_by_status[of "stub_env ?err" ?c ?err None, OF stub_round_trip]
    by (simp add: formatError_stub_boom stub_response_sel)
  from 1 2 3 show ?thesis by blast
qed

section \<open>The creating operations\<close>

text \<open>
  Claim C3. For every Service, when it marshals and the POST gets a response:
  \<open>CreateService\<close> returns no error exactly when the status is 201; on 201 the
  identifier is the last piece of the Location header split on \<^verbatim>\<open>/\<close>; on any other
  status it returns the empty identifier and the error of \<open>formatError\<close>. The same
  holds for \<open>AddDestination\<close> and a Destination.
\<close>

theorem create_by_status:
  "(Marshal_Service env svc = Inr json
    \<and> round_trip env \<lparr>Method = ''POST'', URL = path c [''services''],
                       ContentType = ''application/json'', Payload = Some json\<rparr> = Inr resp
    \<longrightarrow> (StatusCode resp = 201 \<longrightarrow>
           fst (CreateService env c svc)
             = Some (last (Split (Header_Get (Header resp) ''Location'') (CHR ''/'')), None))
       \<and> (StatusCode resp \<noteq> 201 \<longrightarrow>
           fst (CreateService env c svc) = Some ([], Some (fst (formatError env resp))))
       \<and> ((\<exists>ident. fst (CreateService env c svc) = Some (ident, None)) = (StatusCode resp = 201)))
   \<and> (Marshal_Destination env dst = Inr json'
    \<and> round_trip env \<lparr>Method = ''POST'',
                       URL = path c [''services'', ServiceId env dst, ''destinations''],
                       ContentType = ''application/json'', Payload = Some json'\<rparr> = Inr resp'
    \<longrightarrow> (StatusCode resp' = 201 \<longrightarrow>
           fst (AddDestination env c dst)
             = Some (last (Split (Header_Get (Header resp') ''Location'') (CHR ''/'')), None))
       \<and> (StatusCode resp' \<noteq> 201 \<longrightarrow>
           fst (AddDestination env c dst) = Some ([], Some (fst (formatError env resp'))))
       \<and> ((\<exists>ident. fst (AddDestination env c dst) = Some (ident, None)) = (StatusCode resp' = 201)))"
proof (intro conjI impI; elim conjE)
  assume m: "Marshal_Service env svc = Inr json"
    and r: "round_trip env \<lparr>Method = ''POST'', URL = path c [''services''],
                       ContentType = ''application/json'', Payload = Some json\<rparr> = Inr resp"
  note post = HttpClient_Post_response[OF r]
  have enc: "encode (Marshal_Service env) svc = Inr json"
    using m by (simp add: encode_def)
  show "StatusCode resp = 201 \<Longrightarrow>
        fst (CreateService env c svc)
          = Some (last (Split (Header_Get (Header resp) ''Location'') (CHR ''/'')), None)"
    by (simp add: CreateService_def enc post StatusCreated_def idFromLocation_eq_last)
  show "StatusCode resp \<noteq> 201 \<Longrightarrow>
        fst (CreateService env c svc) = Some ([], Some (fst (formatError env resp)))"
    by (simp add: CreateService_def enc post StatusCreated_def split: prod.splits)
  show "(\<exists>ident. fst (CreateService env c svc) = Some (ident, None)) = (StatusCode resp = 201)"
    by (simp add: CreateService_def enc post StatusCreated_def idFromLocation_eq_last
        split: prod.splits)
next
  assume m: "Marshal_Destination env dst = Inr json'"
    and r: "round_trip env \<lparr>Method = ''POST'',
                       URL = path c [''services'', ServiceId env dst, ''destinations''],
                       ContentType = ''application/json'', Payload = Some json'\<rparr> = Inr resp'"
  note post = HttpClient_Post_response[OF r]
  have enc: "encode (Marshal_Destination env) dst = Inr json'"
    using m by (simp add: encode_def)
  show "StatusCode resp' = 201 \<Longrightarrow>
        fst (AddDestination env c dst)
          = Some (last (Split (Header_Get (Header resp') ''Location'') (CHR ''/'')), None)"
    by (simp add: AddDestination_def enc post StatusCreated_def idFromLocation_eq_last)
  show "StatusCode resp' \<noteq> 201 \<Longrightarrow>
        fst (AddDestination env c dst) = Some ([], Some (fst (formatError env resp')))"
    by (simp add: AddDestination_def enc post StatusCreated_def split: prod.splits)
  show "(\<exists>ident. fst (AddDestination env c dst) = Some (ident, None)) = (StatusCode resp' = 201)"
    by (simp add: AddDestination_def enc post StatusCreated_def idFromLocation_eq_last
        split: prod.splits)
qed

text \<open>
  C3 at concrete responses: 201 with a Location ending in \<^verbatim>\<open>42\<close> (resp. \<^verbatim>\<open>7\<close>), and
  500.
\<close>

theorem create_by_status_witness:
  "fst (CreateService (stub_env (stub_response 201 ''http://host/services/42'' [])) (NewClient ''http://host/'') 4)
     = Some (''42'', None)
   \<and> fst (CreateService (stub_env (stub_response 500 [] ''boom'')) (NewClient ''http://host/'') 4)
     = Some ([], Some (Errorf (''Request failed. Status Code: 500. Body: '' @ [dquote] @ ''boom'' @ [dquote])))
   \<and> fst (AddDestination (stub_env (stub_response 201 ''http://host/services/5/destinations/7'' []))
            (NewClient ''http://host/'') ''5'')
     = Some (''7'', None)
   \<and> fst (AddDestination (stub_env (stub_response 500 [] ''boom'')) (NewClient ''http://host/'') ''5'')
     = Some ([], Some (Errorf (''Request failed. Status Code: 500. Body: '' @ [dquote] @ ''boom'' @ [dquote])))"
proof -
  let ?c = "NewClient ''http://host/''"
  let ?made = "stub_response 201 ''http://host/services/42'' []"
  let ?added = "stub_response 201 ''http://host/services/5/destinations/7'' []"
  let ?err = "stub_response 500 [] ''boom''"
  have ms: "\<And>r. Marshal_Service (stub_env r) 4 = Inr ''4''"
    by (simp add: stub_env_sel digit_def)
  have md: "\<And>r. Marshal_Destination (stub_env r) ''5'' = Inr ''5''"
    by (simp add: stub_env_sel)
  have 1: "fst (CreateService (stub_env ?made) ?c 4) = Some (''42'', None)"
    using create_by_status[of "stub_env ?made" 4 "''4''" ?c ?made] ms stub_round_trip
    by (simp add: stub_response_sel Header_Get_def)
  have 2: "fst (CreateService (stub_env ?err) ?c 4)
     = Some ([], Some (Errorf (''Request failed. Status Code: 500. Body: '' @ [dquote] @ ''boom'' @ [dquote])))"
    using create_by_status[of "stub_env ?err" 4 "''4''" ?c ?err] ms stub_round_trip
    by (simp add: stub_response_sel formatError_stub_boom)
  have 3: "fst (AddDestination (stub_env ?added) ?c ''5'') = Some (''7'', None)"
    using create_by_status[of "stub_env ?added" _ _ ?c _ "''5''" "''5''" ?added] md stub_round_trip
    by (simp add: stub_response_sel Header_Get_def)
  have 4: "fst (AddDestination (stub_env ?err) ?c ''5'')
     = Some ([], Some (Errorf (''Request failed. Status Code: 500. Body: '' @ [dquote] @ ''boom'' @ [dquote])))"
    using create_by_status[of "stub_env ?err" _ _ ?c _ "''5''" "''5''" ?err] md stub_round_trip
    by (simp add: stub_response_sel formatError_stub_boom)
  from 1 2 3 4 show ?thesis by blast
qed

section \<open>Where the sentinel error comes from\<close>

text \<open>
  Claim C4. \<open>GetServices\<close>, \<open>CreateService\<close>, \<open>DeleteService\<close>, \<open>AddDestination\<close> and
  \<open>DeleteDestination\<close> never return the sentinel \<open>ErrNoSuchService\<close>; \<open>GetService\<close>
  returns it only when the response has status 404; and on a 404 response each of the
  five other operations returns the error of \<open>formatError\<close>.
\<close>

theorem sentinel_only_from_GetService:
  "snd (fst (GetServices env c)) \<noteq> Some ErrNoSuchService
   \<and> fst (CreateService env c svc) \<noteq> Some (newid, Some ErrNoSuchService)
   \<and> fst (DeleteService env c ident) \<noteq> Some ErrNoSuchService
   \<and> fst (AddDestination env c dst) \<noteq> Some (newid, Some ErrNoSuchService)
   \<and> fst (DeleteDestination env c sid did) \<noteq> Some ErrNoSuchService
   \<and> (snd (fst (GetService env c ident)) = Some ErrNoSuchService \<longrightarrow>
        (\<exists>r. round_trip env \<lparr>Method = ''GET'', URL = path c [''services'', ident],
                               ContentType = [], Payload = None\<rparr> = Inr r
             \<and> StatusCode r = 404))
   \<and> (StatusCode resp = 404 \<longrightarrow>
        (round_trip env \<lparr>Method = ''GET'', URL = path c [''services''],
                          ContentType = [], Payload = None\<rparr> = Inr resp
           \<longrightarrow> fst (GetServices env c) = (None, Some (fst (formatError env resp))))
      \<and> (Marshal_Service env svc = Inr json
          \<and> round_trip env \<lparr>Method = ''POST'', URL = path c [''services''],
                          ContentType = ''application/json'', Payload = Some json\<rparr> = Inr resp
           \<longrightarrow> fst (CreateService env c svc) = Some ([], Some (fst (formatError env resp))))
      \<and> (NewRequest_error env ''DELETE'' (path c [''services'', ident]) = None
          \<and> round_trip env \<lparr>Method = ''DELETE'', URL = path c [''services'', ident],
                          ContentType = [], Payload = None\<rparr> = Inr resp
           \<longrightarrow> fst (DeleteService env c ident) = Some (fst (formatError env resp)))
      \<and> (Marshal_Destination env dst = Inr json'
          \<and> round_trip env \<lparr>Method = ''POST'',
                          URL = path c [''services'', ServiceId env dst, ''destinations''],
                          ContentType = ''application/json'', Payload = Some json'\<rparr> = Inr resp
           \<longrightarrow> fst (AddDestination env c dst) = Some ([], Some (fst (formatError env resp))))
      \<and> (NewRequest_error env ''DELETE'' (path c [''services'', sid, ''destinations'', did]) = None
          \<and> round_trip env \<lparr>Method = ''DELETE'',
                          URL = path c [''services'', sid, ''destinations'', did],
                          ContentType = [], Payload = None\<rparr> = Inr resp
           \<longrightarrow> fst (DeleteDestination env c sid did) = Some (fst (formatError env resp))))"
proof (intro conjI impI; (elim conjE)?)
  show "snd (fst (GetServices env c)) \<noteq> Some ErrNoSuchService"
    by (rule GetServices_not_sentinel)
  show "fst (CreateService env c svc) \<noteq> Some (newid, Some ErrNoSuchService)"
    by (rule CreateService_not_sentinel)
  show "fst (DeleteService env c ident) \<noteq> Some ErrNoSuchService"
    by (rule DeleteService_not_sentinel)
  show "fst (AddDestination env c dst) \<noteq> Some (newid, Some ErrNoSuchService)"
    by (rule AddDestination_not_sentinel)
  show "fst (DeleteDestination env c sid did) \<noteq> Some ErrNoSuchService"
    by (rule DeleteDestination_not_sentinel)
  show "snd (fst (GetService env c ident)) = Some ErrNoSuchService \<Longrightarrow>
        \<exists>r. round_trip env \<lparr>Method = ''GET'', URL = path c [''services'', ident],
                               ContentType = [], Payload = None\<rparr> = Inr r
             \<and> StatusCode r = 404"
    by (rule GetService_sentinel_only_404)
next
  assume "StatusCode resp = 404"
    and "round_trip env \<lparr>Method = ''GET'', URL = path c [''services''],
                          ContentType = [], Payload = None\<rparr> = Inr resp"
  then show "fst (GetServices env c) = (None, Some (fst (formatError env resp)))"
    by (simp add: GetServices_failed_status)
next
  assume "StatusCode resp = 404" and "Marshal_Service env svc = Inr json"
    and "round_trip env \<lparr>Method = ''POST'', URL = path c [''services''],
                          ContentType = ''application/json'', Payload = Some json\<rparr> = Inr resp"
  then show "fst (CreateService env c svc) = Some ([], Some (fst (formatError env resp)))"
    by (simp add: CreateService_failed_status)
next
  assume "StatusCode resp = 404"
    and "NewRequest_error env ''DELETE'' (path c [''services'', ident]) = None"
    and "round_trip env \<lparr>Method = ''DELETE'', URL = path c [''services'', ident],
                          ContentType = [], Payload = None\<rparr> = Inr resp"
  then show "fst (DeleteService env c ident) = Some (fst (formatError env resp))"
    by (simp add: DeleteService_failed_status)
next
  assume "StatusCode resp = 404" and "Marshal_Destination env dst = Inr json'"
    and "round_trip env \<lparr>Method = ''POST'',
                          URL = path c [''services'', ServiceId env dst, ''destinations''],
                          ContentType = ''application/json'', Payload = Some json'\<rparr> = Inr resp"
  then show "fst (AddDestination env c dst) = Some ([], Some (fst (formatError env resp)))"
    by (simp add: AddDestination_failed_status)
next
  assume "StatusCode resp = 404"
    and "NewRequest_error env ''DELETE'' (path c [''services'', sid, ''destinations'', did]) = None"
    and "round_trip env \<lparr>Method = ''DELETE'',
                          URL = path c [''services'', sid, ''destinations'', did],
                          ContentType = [], Payload = None\<rparr> = Inr resp"
  then show "fst (DeleteDestination env c sid did) = Some (fst (formatError env resp))"
    by (simp add: DeleteDestination_failed_status)
qed

text \<open>C4 at a 404 response with body \<^verbatim>\<open>gone\<close>, for the six operations.\<close>

theorem sentinel_only_from_GetService_witness:
  "fst (GetServices (stub_env (stub_response 404 [] ''gone'')) (NewClient ''http://host/''))
     = (None, Some (Errorf (''Request failed. Status Code: 404. Body: '' @ [dquote] @ ''gone'' @ [dquote])))
   \<and> fst (CreateService (stub_env (stub_response 404 [] ''gone'')) (NewClient ''http://host/'') 4)
     = Some ([], Some (Errorf (''Request failed. Status Code: 404. Body: '' @ [dquote] @ ''gone'' @ [dquote])))
   \<and> fst (DeleteService (stub_env (stub_response 404 [] ''gone'')) (NewClient ''http://host/'') ''7'')
     = Some (Errorf (''Request failed. Status Code: 404. Body: '' @ [dquote] @ ''gone'' @ [dquote]))
   \<and> fst (AddDestination (stub_env (stub_response 404 [] ''gone'')) (NewClient ''http://host/'') ''5'')
     = Some ([], Some (Errorf (''Request failed. Status Code: 404. Body: '' @ [dquote] @ ''gone'' @ [dquote])))
   \<and> fst (DeleteDestination (stub_env (stub_response 404 [] ''gone'')) (NewClient ''http://host/'') ''5'' ''7'')
     = Some (Errorf (''Request failed. Status Code: 404. Body: '' @ [dquote] @ ''gone'' @ [dquote]))
   \<and> snd (fst (GetService (stub_env (stub_response 404 [] ''gone'')) (NewClient ''http://host/'') ''7''))
     = Some ErrNoSuchService"
proof -
  let ?r = "stub_response 404 [] ''gone''"
  let ?c = "NewClient ''http://host/''"
  have ms: "Marshal_Service (stub_env ?r) 4 = Inr ''4''"
    by (simp add: stub_env_sel digit_def)
  have md: "Marshal_Destination (stub_env ?r) ''5'' = Inr ''5''"
    by (simp add: stub_env_sel)
  have st: "StatusCode ?r = 404"
    by (simp add: stub_response_sel)
  note t = sentinel_only_from_GetService[of "stub_env ?r" ?c 4 _ "''7''" "''5''" "''5''" "''7''" ?r
      "''4''" "''5''"]
  have 1: "fst (GetServices (stub_env ?r) ?c) = (None, Some (fst (formatError (stub_env ?r) ?r)))"
    using t st stub_round_trip by blast
  have 2: "fst (CreateService (stub_env ?r) ?c 4) = Some ([], Some (fst (formatError (stub_env ?r) ?r)))"
    using t st ms stub_round_trip by blast
  have 3: "fst (DeleteService (stub_env ?r) ?c ''7'') = Some (fst (formatError (stub_env ?r) ?r))"
    using t st stub_round_trip stub_env_sel(1) by blast
  have 4: "fst (AddDestination (stub_env ?r) ?c ''5'') = Some ([], Some (fst (formatError (stub_env ?r) ?r)))"
    using t st md stub_round_trip stub_env_sel(7)[of ?r "''5''"] by metis
  have 5: "fst (DeleteDestination (stub_env ?r) ?c ''5'' ''7'') = Some (fst (formatError (stub_env ?r) ?r))"
    using t st stub_round_trip stub_env_sel(1) by blast
  have 6: "snd (fst (GetService (stub_env ?r) ?c ''7'')) = Some ErrNoSuchService"
    by (simp add: GetService_def HttpClient_Get_def HttpClient_Do_def stub_round_trip
        stub_response_sel StatusOK_def StatusNotFound_def)
  from 1 2 3 4 5 6 show ?thesis
    by (simp add: formatError_stub_gone)
qed

section \<open>Identifier extraction and path building\<close>

text \<open>
  Claim C5. For every response \<open>idFromLocation\<close> returns (it never panics on its index)
  the last element of the Location header value split on \<^verbatim>\<open>/\<close>: the text after the
  last slash when there is one, the whole value when there is none; so
  \<^verbatim>\<open>http://host/services/42\<close> gives \<^verbatim>\<open>42\<close>, and an absent header, a header with no
  value and an empty value all give the empty string.
\<close>

theorem idFromLocation_last_segment:
  "idFromLocation resp = Some (last (Split (Header_Get (Header resp) ''Location'') (CHR ''/'')))
   \<and> (Header_Get (Header resp) ''Location'' = pre @ ''/'' @ ident \<and> CHR ''/'' \<notin> set ident
        \<longrightarrow> idFromLocation resp = Some ident)
   \<and> (CHR ''/'' \<notin> set (Header_Get (Header resp) ''Location'')
        \<longrightarrow> idFromLocation resp = Some (Header_Get (Header resp) ''Location''))
   \<and> idFromLocation (resp\<lparr>Header := (Header resp)(''Location'' \<mapsto> [''http://host/services/42''])\<rparr>)
        = Some ''42''
   \<and> idFromLocation (resp\<lparr>Header := (Header resp)(''Location'' := None)\<rparr>) = Some []
   \<and> idFromLocation (resp\<lparr>Header := (Header resp)(''Location'' \<mapsto> [])\<rparr>) = Some []
   \<and> idFromLocation (resp\<lparr>Header := (Header resp)(''Location'' \<mapsto> [[]])\<rparr>) = Some []"
proof -
  have a: "\<And>r. idFromLocation r = Some (last (Split (Header_Get (Header r) ''Location'') (CHR ''/'')))"
    by (simp add: idFromLocation_def Let_def index_last Split_not_Nil)
  have b: "Header_Get (Header resp) ''Location'' = pre @ ''/'' @ ident \<and> CHR ''/'' \<notin> set ident
        \<longrightarrow> idFromLocation resp = Some ident"
    using last_Split_append[of pre "CHR ''/''" ident] by (simp add: a Split_no_sep)
  have c: "CHR ''/'' \<notin> set (Header_Get (Header resp) ''Location'')
        \<longrightarrow> idFromLocation resp = Some (Header_Get (Header resp) ''Location'')"
    by (simp add: a Split_no_sep)
  have d: "idFromLocation (resp\<lparr>Header := (Header resp)(''Location'' \<mapsto> [''http://host/services/42''])\<rparr>)
        = Some ''42''"
    by (simp add: a Header_Get_def)
  have e: "idFromLocation (resp\<lparr>Header := (Header resp)(''Location'' := None)\<rparr>) = Some []"
    by (simp add: a Header_Get_def)
  have f: "idFromLocation (resp\<lparr>Header := (Header resp)(''Location'' \<mapsto> [])\<rparr>) = Some []"
    by (simp add: a Header_Get_def)
  have g: "idFromLocation (resp\<lparr>Header := (Header resp)(''Location'' \<mapsto> [[]])\<rparr>) = Some []"
    by (simp add: a Header_Get_def)
  from a b c d e f g show ?thesis by blast
qed

text \<open>The two conditional parts of C5 at concrete headers: one with slashes, one without.\<close>

theorem idFromLocation_last_segment_witness:
  "idFromLocation (stub_response 201 ''http://host/services/5/destinations/7'' []) = Some ''7''
   \<and> idFromLocation (stub_response 201 ''42'' []) = Some ''42''"
proof -
  let ?r = "stub_response 201 ''http://host/services/5/destinations/7'' []"
  have h: "Header_Get (Header ?r) ''Location'' = ''http://host/services/5/destinations'' @ ''/'' @ ''7''
           \<and> CHR ''/'' \<notin> set ''7''"
    by (simp add: stub_response_def Header_Get_def)
  have 1: "idFromLocation ?r = Some ''7''"
    using idFromLocation_last_segment[of ?r "''http://host/services/5/destinations''" "''7''"] h
    by blast
  let ?s = "stub_response 201 ''42'' []"
  have k: "CHR ''/'' \<notin> set (Header_Get (Header ?s) ''Location'')"
    by (simp add: stub_response_def Header_Get_def)
  have 2: "idFromLocation ?s = Some ''42''"
    using idFromLocation_last_segment[of ?s] k
    by (simp add: stub_response_def Header_Get_def)
  from 1 2 show ?thesis by blast
qed

text \<open>
  Claim C6. For every base address and every sequence of segments, \<open>path\<close> is the
  trimmed base followed by a slash and the segment, for each segment in order; the
  trimmed base is the base without its trailing slashes (the base is the trimmed base
  followed by slashes only, and the trimmed base does not end with a slash). The base
  \<^verbatim>\<open>http://host/\<close> with \<^verbatim>\<open>services\<close>, \<^verbatim>\<open>5\<close>, \<^verbatim>\<open>destinations\<close> gives
  \<^verbatim>\<open>http://host/services/5/destinations\<close>.
\<close>

theorem path_joins_trimmed_base:
  "path c paths = TrimRight (Addr c) ''/'' @ concat (map (\<lambda>p. ''/'' @ p) paths)
   \<and> (\<exists>n. Addr c = TrimRight (Addr c) ''/'' @ replicate n (CHR ''/''))
   \<and> \<not> (\<exists>ys. TrimRight (Addr c) ''/'' = ys @ ''/'')
   \<and> path (c\<lparr>Addr := ''http://host/''\<rparr>) [''services'', ''5'', ''destinations'']
        = ''http://host/services/5/destinations''"
proof -
  have a: "path c paths = TrimRight (Addr c) ''/'' @ concat (map (\<lambda>p. ''/'' @ p) paths)"
    by (simp add: path_def Join_concat)
  have d: "path (c\<lparr>Addr := ''http://host/''\<rparr>) [''services'', ''5'', ''destinations'']
        = ''http://host/services/5/destinations''"
    by (simp add: path_def TrimRight_def)
  from a d TrimRight_decomp[of "Addr c" "CHR ''/''"] TrimRight_no_trailing[of "Addr c" "CHR ''/''"]
  show ?thesis by blast
qed

section \<open>The message of the generic error\<close>

text \<open>
  Claim C7, as amended. For every response the message of \<open>formatError\<close>'s error is
  \<^verbatim>\<open>Request failed. Status Code: \<close>, the status code in decimal, \<^verbatim>\<open>. Body: \<close> and the
  body that was read in its \<^verbatim>\<open>%q\<close> form; so it contains the decimal status code and the
  quoted body, and when every byte of the body is printable ASCII other than the double
  quote and the backslash (the empty body too) the quoted form is the body between two
  double quotes and the message contains the body text itself.
\<close>

theorem formatError_message:
  "Error (fst (formatError env resp))
     = ''Request failed. Status Code: '' @ Itoa (StatusCode resp) @ ''. Body: ''
       @ Quote (escape_rune env) (bytes (Body resp))
   \<and> Contains (Error (fst (formatError env resp))) (Itoa (StatusCode resp))
   \<and> Contains (Error (fst (formatError env resp))) (Quote (escape_rune env) (bytes (Body resp)))
   \<and> ((\<forall>ch\<in>set (bytes (Body resp)). unescaped ch) \<longrightarrow>
        Quote (escape_rune env) (bytes (Body resp)) = [dquote] @ bytes (Body resp) @ [dquote]
        \<and> Contains (Error (fst (formatError env resp))) (bytes (Body resp)))"
proof -
  let ?msg = "Error (fst (formatError env resp))"
  let ?b = "bytes (Body resp)"
  let ?q = "Quote (escape_rune env) ?b"
  have m: "?msg = ''Request failed. Status Code: '' @ Itoa (StatusCode resp) @ ''. Body: '' @ ?q"
    by (rule formatError_Error)
  have s: "Contains ?msg (Itoa (StatusCode resp))"
    unfolding m by (rule Contains_middle)
  have q: "Contains ?msg ?q"
    using Contains_suffix[of "''Request failed. Status Code: '' @ Itoa (StatusCode resp) @ ''. Body: ''" ?q]
    unfolding m by simp
  have r: "(\<forall>ch\<in>set ?b. unescaped ch) \<longrightarrow> ?q = [dquote] @ ?b @ [dquote] \<and> Contains ?msg ?b"
  proof
    assume "\<forall>ch\<in>set ?b. unescaped ch"
    then have e: "?q = [dquote] @ ?b @ [dquote]"
      by (simp add: Quote_def quoteBody_unescaped)
    have "Contains ((''Request failed. Status Code: '' @ Itoa (StatusCode resp) @ ''. Body: '' @ [dquote])
             @ ?b @ [dquote]) ?b"
      by (rule Contains_middle)
    then have "Contains ?msg ?b"
      unfolding m e by simp
    with e show "?q = [dquote] @ ?b @ [dquote] \<and> Contains ?msg ?b" by blast
  qed
  from m s q r show ?thesis by blast
qed

text \<open>The conditional part at status 503 and the body \<^verbatim>\<open>oops\<close>.\<close>

theorem formatError_message_witness:
  "list_all unescaped ''oops''
   \<and> Error (fst (formatError (stub_env (stub_response 503 [] ''oops'')) (stub_response 503 [] ''oops'')))
       = ''Request failed. Status Code: 503. Body: '' @ [dquote] @ ''oops'' @ [dquote]
   \<and> Contains (Error (fst (formatError (stub_env (stub_response 503 [] ''oops'')) (stub_response 503 [] ''oops''))))
        ''oops''"
proof -
  let ?r = "stub_response 503 [] ''oops''"
  have h: "\<forall>ch\<in>set (bytes (Body ?r)). unescaped ch"
    by (simp add: stub_response_sel unescaped_def dquote_def backslash_def)
  have i: "Itoa (StatusCode ?r) = ''503''"
    by (simp add: stub_response_sel Itoa_def digit_def)
  note t = formatError_message[of "stub_env ?r" ?r]
  from t have m: "Error (fst (formatError (stub_env ?r) ?r))
     = ''Request failed. Status Code: '' @ Itoa (StatusCode ?r) @ ''. Body: ''
       @ Quote (escape_rune (stub_env ?r)) (bytes (Body ?r))"
    by blast
  from t h have q: "Quote (escape_rune (stub_env ?r)) (bytes (Body ?r))
     = [dquote] @ bytes (Body ?r) @ [dquote]"
    by blast
  from t h have c: "Contains (Error (fst (formatError (stub_env ?r) ?r))) (bytes (Body ?r))"
    by blast
  have 1: "list_all unescaped ''oops''"
    using h by (simp add: stub_response_sel)
  have 2: "Error (fst (formatError (stub_env ?r) ?r))
       = ''Request failed. Status Code: 503. Body: '' @ [dquote] @ ''oops'' @ [dquote]"
    unfolding m q i by (simp add: stub_response_sel)
  have 3: "Contains (Error (fst (formatError (stub_env ?r) ?r))) ''oops''"
    using c by (simp add: stub_response_sel)
  from 1 2 3 show ?thesis by blast
qed

text \<open>
  Claim C7 as stated fails: at status 500 and the seven-byte JSON body made of an
  opening brace, a quoted \<^verbatim>\<open>e\<close>, \<^verbatim>\<open>:1\<close> and a closing brace, \<^verbatim>\<open>%q\<close> backslashes the two
  double quotes, and the message does not contain the raw body text.
\<close>

theorem formatError_escapes_body:
  "Error (fst (formatError (stub_env (stub_response 500 [] (''{'' @ [dquote] @ ''e'' @ [dquote] @ '':1}'')))
                 (stub_response 500 [] (''{'' @ [dquote] @ ''e'' @ [dquote] @ '':1}''))))
     = ''Request failed. Status Code: 500. Body: ''
       @ [dquote] @ ''{'' @ [backslash, dquote] @ ''e'' @ [backslash, dquote] @ '':1}'' @ [dquote]
   \<and> \<not> Contains
        (Error (fst (formatError (stub_env (stub_response 500 [] (''{'' @ [dquote] @ ''e'' @ [dquote] @ '':1}'')))
                 (stub_response 500 [] (''{'' @ [dquote] @ ''e'' @ [dquote] @ '':1}'')))))
        (''{'' @ [dquote] @ ''e'' @ [dquote] @ '':1}'')"
proof -
  let ?b = "''{'' @ [dquote] @ ''e'' @ [dquote] @ '':1}''"
  let ?r = "stub_response 500 [] ?b"
  have m: "Error (fst (formatError (stub_env ?r) ?r))
     = ''Request failed. Status Code: 500. Body: ''
       @ [dquote] @ ''{'' @ [backslash, dquote] @ ''e'' @ [backslash, dquote] @ '':1}'' @ [dquote]"
    by (simp add: formatError_Error stub_response_sel Itoa_def digit_def Quote_def
        appendEscapedByte_def Let_def dquote_def backslash_def)
  have n: "\<not> Contains (''Request failed. Status Code: 500. Body: ''
       @ [dquote] @ ''{'' @ [backslash, dquote] @ ''e'' @ [backslash, dquote] @ '':1}'' @ [dquote]) ?b"
    by (simp add: Contains_def dquote_def backslash_def sublist_code)
  from m n show ?thesis by simp
qed

section \<open>Marshalling failures\<close>

text \<open>
  Claim C8. When marshalling the entity fails, \<open>CreateService\<close> and \<open>AddDestination\<close>
  return that error with an empty identifier, and the trace of events is empty: no
  request was handed to the HTTP client.
\<close>

theorem marshal_failure_sends_nothing:
  "(Marshal_Service env svc = Inl e \<longrightarrow>
      CreateService env c svc = (Some ([], Some (Foreign e)), []))
   \<and> (Marshal_Destination env dst = Inl e' \<longrightarrow>
      AddDestination env c dst = (Some ([], Some (Foreign e')), []))"
  by (simp add: CreateService_def AddDestination_def encode_def)

text \<open>C8 at the two entities the stand-in cannot marshal.\<close>

theorem marshal_failure_sends_nothing_witness:
  "CreateService (stub_env (stub_response 201 ''http://host/services/42'' [])) (NewClient ''http://host/'') 0
     = (Some ([], Some (Foreign ''json: unsupported value'')), [])
   \<and> AddDestination (stub_env (stub_response 201 ''http://host/services/5/destinations/7'' []))
        (NewClient ''http://host/'') []
     = (Some ([], Some (Foreign ''json: unsupported value'')), [])"
  using marshal_failure_sends_nothing[of "stub_env (stub_response 201 ''http://host/services/42'' [])"
          0 "''json: unsupported value''" "NewClient ''http://host/''"]
        marshal_failure_sends_nothing[of "stub_env (stub_response 201 ''http://host/services/5/destinations/7'' [])"
          _ _ "NewClient ''http://host/''" "[]" "''json: unsupported value''"]
  by (simp add: stub_env_sel)

section \<open>The transport configuration\<close>

text \<open>
  Claim C9. The client built by \<open>NewClient\<close> has a dial timeout, a keep-alive interval
  and a TLS handshake timeout of 30 seconds and a request timeout of 60 seconds (as
  nanosecond counts, none of which wraps in an int64), HTTP keep-alives disabled, and
  \<open>MaxIdleConnsPerHost\<close> set to -1 (below zero: no idle connection is kept); its base
  address is the one given.
\<close>

theorem NewClient_configuration:
  "sint (Dial_Timeout (Dial (Transport (HttpClient (NewClient addr))))) = 30 * 1000000000
   \<and> sint (Dial_KeepAlive (Dial (Transport (HttpClient (NewClient addr))))) = 30 * 1000000000
   \<and> sint (TLSHandshakeTimeout (Transport (HttpClient (NewClient addr)))) = 30 * 1000000000
   \<and> sint (Timeout (HttpClient (NewClient addr))) = 60 * 1000000000
   \<and> DisableKeepAlives (Transport (HttpClient (NewClient addr)))
   \<and> MaxIdleConnsPerHost (Transport (HttpClient (NewClient addr))) = - 1
   \<and> Addr (NewClient addr) = addr"
  by (simp add: NewClient_def Minute_def Second_def Millisecond_def Microsecond_def Nanosecond_def)

section \<open>A nil Service with no error\<close>

text \<open>
  Claim C10. On status 200 with the body \<^verbatim>\<open>null\<close>, which \<^verbatim>\<open>json.Unmarshal\<close> stores
  into a pointer as nil without an error, \<open>GetService\<close> returns the nil Service and no
  error: it has no check of its own between \<open>decode\<close> and the return.
\<close>

theorem GetService_null_body:
  assumes "round_trip env \<lparr>Method = ''GET'', URL = path c [''services'', ident],
                            ContentType = [], Payload = None\<rparr> = Inr resp"
    and "StatusCode resp = 200"
    and "ReadAll (Body resp) = (''null'', None)"
    and "Unmarshal_Service env ''null'' None = (None, None)"
  shows "fst (GetService env c ident) = (None, None)"
  using assms(2-4)
  by (simp add: GetService_def HttpClient_Get_response[OF assms(1)] StatusOK_def decode_def)

text \<open>C10 at the stand-in, whose Unmarshal stores \<^verbatim>\<open>null\<close> as nil.\<close>

theorem GetService_null_body_witness:
  "fst (GetService (stub_env (stub_response 200 [] ''null'')) (NewClient ''http://host/'') ''7'')
     = (None, None)"
  by (rule GetService_null_body[OF stub_round_trip])
     (simp_all add: stub_response_sel stub_env_sel ReadAll_def)

end
